theory Spec2Isabelle
  imports Complex_Main "HOL-Library.AList"
begin

section \<open>The database of the attendance server (src/main.go)\<close>

text \<open>
  The server keeps two SQLite tables, created by \<^verbatim>\<open>initSchema\<close>:
  \<^verbatim>\<open>faculty(id, name, role, rate_per_hour, active, token)\<close> and
  \<^verbatim>\<open>dtr(id, faculty_id, in_time, out_time)\<close>. A table is a list of rows in
  storage order. The only statements that write rows are the INSERT of
  \<^verbatim>\<open>handleFacultyAdd\<close> (which supplies name, role, rate and token) and the INSERT
  of \<^verbatim>\<open>handleScan\<close> (which supplies faculty_id and in_time), so these columns
  are modelled without NULL; \<^verbatim>\<open>out_time\<close> is NULL until the clock-out.

  A timestamp is an integer count of nanoseconds since Go's zero \<^verbatim>\<open>time.Time\<close>
  (January 1, year 1, 00:00 UTC); the time zone that a \<^verbatim>\<open>time.Time\<close> also
  carries is not part of the model, and the database is taken to compare timestamps
  as instants (see \<open>between\<close> below for what that leaves out).

  A \<^verbatim>\<open>float64\<close> is a rational number: the sums, products and quotients of the
  payroll code are modelled exactly. The model and the code agree wherever every
  intermediate value is representable in the machine format, as with the whole and
  half hours of the example data; elsewhere the code's values carry the rounding error
  of the format, which can move a total that lies at a rounding boundary to the
  neighbouring quarter hour. Infinite and not-a-number rates are not values of the
  model.
\<close>

type_synonym time = int

record faculty =
  f_id :: int
  f_name :: string
  f_role :: string
  rate_per_hour :: rat
  active :: int
  token :: string

record dtr =
  d_id :: int
  faculty_id :: int
  in_time :: time
  out_time :: "time option"

text \<open>
  \<^verbatim>\<open>dtr.id\<close> is \<^verbatim>\<open>INTEGER PRIMARY KEY AUTOINCREMENT\<close>: SQLite remembers the
  largest id ever handed out (\<open>dtr_seq\<close>) and gives a new row the next one.
\<close>

record db =
  faculty_tab :: "faculty list"
  dtr_tab :: "dtr list"
  dtr_seq :: int

text \<open>
  Storage faults. A statement of \<^verbatim>\<open>database/sql\<close> may fail (locked file, I/O
  error, busy timeout). Which statements fail during one request is an input of the
  model: one flag per statement kind that the handlers issue.
\<close>

record env =
  token_query_fails :: bool
  open_query_fails :: bool
  exec_fails :: bool
  payroll_query_fails :: bool

definition no_faults :: env where
  "no_faults = \<lparr>token_query_fails = False, open_query_fails = False,
                exec_fails = False, payroll_query_fails = False\<rparr>"

section \<open>handleScan: the attendance state machine\<close>

text \<open>
  \<^verbatim>\<open>SELECT id,name,role FROM faculty WHERE token=?\<close> through \<^verbatim>\<open>QueryRow\<close>:
  the first row with that token, or an error (no row, or a storage fault; the handler
  does not tell them apart and answers 404 on both).
\<close>

definition queryFaculty :: "env \<Rightarrow> db \<Rightarrow> string \<Rightarrow> faculty option" where
  "queryFaculty e s tok =
     (if token_query_fails e then None
      else find (\<lambda>f. token f = tok) (faculty_tab s))"

text \<open>
  \<^verbatim>\<open>SELECT id,in_time FROM dtr WHERE faculty_id=? AND out_time IS NULL
  ORDER BY in_time DESC LIMIT 1\<close>. The three outcomes of \<^verbatim>\<open>QueryRow(...).Scan\<close>
  are \<^verbatim>\<open>sql.ErrNoRows\<close>, a row, and any other error.
\<close>

datatype lookup = ErrNoRows | Found int time | ErrOther

definition open_events :: "int \<Rightarrow> dtr list \<Rightarrow> dtr list" where
  "open_events fid ds = filter (\<lambda>d. faculty_id d = fid \<and> out_time d = None) ds"

text \<open>\<^verbatim>\<open>ORDER BY in_time DESC LIMIT 1\<close>: a row with the greatest in_time, the
  earliest stored one among equals.\<close>

fun most_recent :: "dtr list \<Rightarrow> dtr option" where
  "most_recent [] = None"
| "most_recent (d # ds) =
     (case most_recent ds of
        None \<Rightarrow> Some d
      | Some d' \<Rightarrow> if in_time d < in_time d' then Some d' else Some d)"

definition queryOpenEvent :: "env \<Rightarrow> db \<Rightarrow> int \<Rightarrow> lookup" where
  "queryOpenEvent e s fid =
     (if open_query_fails e then ErrOther
      else case most_recent (open_events fid (dtr_tab s)) of
             None \<Rightarrow> ErrNoRows
           | Some d \<Rightarrow> Found (d_id d) (in_time d))"

text \<open>
  \<^verbatim>\<open>INSERT INTO dtr(faculty_id,in_time) VALUES (?,?)\<close> and
  \<^verbatim>\<open>UPDATE dtr SET out_time=? WHERE id=?\<close>. The handler discards the error of
  \<^verbatim>\<open>db.Exec\<close>; a failed statement leaves the table as it was.
\<close>

definition execInsert :: "env \<Rightarrow> db \<Rightarrow> int \<Rightarrow> time \<Rightarrow> db" where
  "execInsert e s fid now =
     (if exec_fails e then s
      else s\<lparr>dtr_tab := dtr_tab s @
                 [\<lparr>d_id = dtr_seq s + 1, faculty_id = fid, in_time = now, out_time = None\<rparr>],
             dtr_seq := dtr_seq s + 1\<rparr>)"

definition execUpdate :: "env \<Rightarrow> db \<Rightarrow> time \<Rightarrow> int \<Rightarrow> db" where
  "execUpdate e s now dtrID =
     (if exec_fails e then s
      else s\<lparr>dtr_tab := map (\<lambda>d. if d_id d = dtrID then d\<lparr>out_time := Some now\<rparr> else d)
                             (dtr_tab s)\<rparr>)"

text \<open>What a handler answers instead of its result: a call of \<^verbatim>\<open>http.Error\<close> with
  its status code, or a run-time panic of the handler.\<close>

datatype http_error = Http404 string | Http500 string | Panic

text \<open>The page of a successful scan: the status line, the person's name and role and
  the time of the scan.\<close>

datatype scan_page = Page string string string time

text \<open>The branch on the outcome of the open-event lookup (the \<^verbatim>\<open>if err == sql.ErrNoRows
  ... else if err == nil ... else\<close> chain): the status, or none on the error branch,
  and the database afterwards.\<close>

definition scanWrite :: "env \<Rightarrow> db \<Rightarrow> int \<Rightarrow> time \<Rightarrow> lookup \<Rightarrow> string option \<times> db" where
  "scanWrite e s fid now r =
     (case r of
        ErrNoRows \<Rightarrow> (Some ''Clock IN'', execInsert e s fid now)
      | Found dtrID inTime \<Rightarrow> (Some ''Clock OUT'', execUpdate e s now dtrID)
      | ErrOther \<Rightarrow> (None, s))"

definition handleScan ::
  "env \<Rightarrow> db \<Rightarrow> string \<Rightarrow> time \<Rightarrow> (http_error + scan_page) \<times> db" where
  "handleScan e s tok now =
     (case queryFaculty e s tok of
        None \<Rightarrow> (Inl (Http404 ''Faculty not found''), s)
      | Some f \<Rightarrow>
          (case scanWrite e s (f_id f) now (queryOpenEvent e s (f_id f)) of
             (None, s') \<Rightarrow> (Inl (Http500 ''DB error''), s')
           | (Some status, s') \<Rightarrow> (Inr (Page status (f_name f) (f_role f) now), s')))"

text \<open>A person scanning several times, one request after the other; \<open>nows\<close> are the
  clock readings of the requests.\<close>

fun scan_all ::
  "env \<Rightarrow> db \<Rightarrow> string \<Rightarrow> time list \<Rightarrow> (http_error + scan_page) list \<times> db" where
  "scan_all e s tok [] = ([], s)"
| "scan_all e s tok (now # nows) =
     (case handleScan e s tok now of
        (r, s') \<Rightarrow> (case scan_all e s' tok nows of (rs, s'') \<Rightarrow> (r # rs, s'')))"

text \<open>What the specification expects of such a run: the pages alternate between
  clock-in and clock-out, and the log pairs the clock readings two by two.\<close>

fun expected_pages :: "faculty \<Rightarrow> bool \<Rightarrow> time list \<Rightarrow> (http_error + scan_page) list" where
  "expected_pages f out [] = []"
| "expected_pages f out (now # nows) =
     Inr (Page (if out then ''Clock OUT'' else ''Clock IN'') (f_name f) (f_role f) now)
       # expected_pages f (\<not> out) nows"

fun expected_log :: "int \<Rightarrow> int \<Rightarrow> time list \<Rightarrow> dtr list" where
  "expected_log fid n [] = []"
| "expected_log fid n [t] = [\<lparr>d_id = n + 1, faculty_id = fid, in_time = t, out_time = None\<rparr>]"
| "expected_log fid n (t # u # ts) =
     \<lparr>d_id = n + 1, faculty_id = fid, in_time = t, out_time = Some u\<rparr>
       # expected_log fid (n + 1) ts"

text \<open>Every row of the log has an id that the sequence has handed out.\<close>

definition ids_issued :: "db \<Rightarrow> bool" where
  "ids_issued s \<longleftrightarrow> list_all (\<lambda>d. d_id d \<le> dtr_seq s) (dtr_tab s)"

text \<open>The same database with other values in the \<^verbatim>\<open>active\<close> column (what
  \<^verbatim>\<open>handleFacultyToggle\<close> changes).\<close>

definition set_active :: "(faculty \<Rightarrow> int) \<Rightarrow> db \<Rightarrow> db" where
  "set_active g s = s\<lparr>faculty_tab := map (\<lambda>f. f\<lparr>active := g f\<rparr>) (faculty_tab s)\<rparr>"

subsection \<open>Two requests at once\<close>

text \<open>
  \<^verbatim>\<open>net/http\<close> runs every request in a goroutine of its own, and \<^verbatim>\<open>handleScan\<close>
  opens no transaction and takes no lock: its lookup and its write are two statements,
  each executed by SQLite as a whole. A request that has resolved its token and read
  the clock is therefore in one of three places: before the lookup, between the lookup
  and the write (holding the outcome of the lookup), or finished with its status.
\<close>

datatype pc = AtLookup | AtWrite lookup | Finished "string option"

record worker =
  w_fid :: int
  w_now :: time
  w_pc :: pc

definition worker_step :: "env \<Rightarrow> worker \<Rightarrow> db \<Rightarrow> worker \<times> db" where
  "worker_step e w s =
     (case w_pc w of
        AtLookup \<Rightarrow> (w\<lparr>w_pc := AtWrite (queryOpenEvent e s (w_fid w))\<rparr>, s)
      | AtWrite r \<Rightarrow>
          (case scanWrite e s (w_fid w) (w_now w) r of
             (st, s') \<Rightarrow> (w\<lparr>w_pc := Finished st\<rparr>, s'))
      | Finished st \<Rightarrow> (w, s))"

text \<open>A schedule says which of two requests takes the next step (\<open>False\<close> the first,
  \<open>True\<close> the second).\<close>

fun run_schedule :: "env \<Rightarrow> bool list \<Rightarrow> worker \<times> worker \<times> db \<Rightarrow> worker \<times> worker \<times> db" where
  "run_schedule e [] c = c"
| "run_schedule e (b # bs) (w1, w2, s) =
     (if b then (case worker_step e w2 s of (w2', s') \<Rightarrow> run_schedule e bs (w1, w2', s'))
      else (case worker_step e w1 s of (w1', s') \<Rightarrow> run_schedule e bs (w1', w2, s')))"

definition two_scans :: "env \<Rightarrow> bool list \<Rightarrow> db \<Rightarrow> int \<Rightarrow> time \<Rightarrow> time \<Rightarrow> pc \<times> pc \<times> db" where
  "two_scans e sched s fid now1 now2 =
     (case run_schedule e sched
             (\<lparr>w_fid = fid, w_now = now1, w_pc = AtLookup\<rparr>,
              \<lparr>w_fid = fid, w_now = now2, w_pc = AtLookup\<rparr>, s) of
        (w1, w2, s') \<Rightarrow> (w_pc w1, w_pc w2, s'))"

text \<open>The schedules in which each request takes its two steps.\<close>

definition complete_schedules :: "bool list list" where
  "complete_schedules =
     [[False, False, True, True], [False, True, False, True], [False, True, True, False],
      [True, False, False, True], [True, False, True, False], [True, True, False, False]]"

section \<open>handlePayroll and handlePayrollCSV: the payroll aggregation\<close>

subsection \<open>Times, durations and rounding of the Go library\<close>

text \<open>
  \<^verbatim>\<open>time.Parse\<close> belongs to the Go library, so the handlers are given its outcome:
  \<open>Some t\<close> for a date that parses, \<open>None\<close> when it returns an error, as it does
  on a missing (empty) or malformed form value. With the error discarded
  (\<^verbatim>\<open>start, _ := time.Parse(...)\<close>) the variable holds the zero time then.
\<close>

definition zeroTime :: time where
  "zeroTime = 0"

definition IsZero :: "time \<Rightarrow> bool" where
  "IsZero t \<longleftrightarrow> t = zeroTime"

definition parsed :: "time option \<Rightarrow> time" where
  "parsed p = (case p of None \<Rightarrow> zeroTime | Some t \<Rightarrow> t)"

text \<open>The first lines of both payroll handlers: the range that is queried.\<close>

definition date_range :: "time \<Rightarrow> time option \<Rightarrow> time option \<Rightarrow> time \<times> time" where
  "date_range now pstart pend =
     (let start = parsed pstart; endt = parsed pend
      in (start, if IsZero endt then now else endt))"

text \<open>\<^verbatim>\<open>t.Sub(u)\<close> is a \<^verbatim>\<open>Duration\<close>, a 64-bit count of nanoseconds that saturates;
  \<^verbatim>\<open>Hours\<close> converts it; \<^verbatim>\<open>math.Round\<close> rounds half away from zero.\<close>

definition maxDuration :: int where
  "maxDuration = 2 ^ 63 - 1"

definition minDuration :: int where
  "minDuration = - (2 ^ 63)"

definition Sub :: "time \<Rightarrow> time \<Rightarrow> int" where
  "Sub t u =
     (let d = t - u
      in if maxDuration < d then maxDuration else if d < minDuration then minDuration else d)"

definition Hours :: "int \<Rightarrow> rat" where
  "Hours d = of_int d / 3600000000000"

definition Round :: "rat \<Rightarrow> rat" where
  "Round x = (if x < 0 then - of_int \<lfloor>- x + 1 / 2\<rfloor> else of_int \<lfloor>x + 1 / 2\<rfloor>)"

subsection \<open>The two queries\<close>

text \<open>A row of \<^verbatim>\<open>SELECT f.id, f.name, f.role, f.rate_per_hour, d.in_time, d.out_time\<close>;
  the two times are scanned into \<^verbatim>\<open>sql.NullTime\<close>.\<close>

record joined =
  j_id :: int
  j_name :: string
  j_role :: string
  j_rate :: rat
  inT :: "time option"
  outT :: "time option"

definition matched :: "faculty \<Rightarrow> dtr \<Rightarrow> joined" where
  "matched f d = \<lparr>j_id = f_id f, j_name = f_name f, j_role = f_role f,
                  j_rate = rate_per_hour f, inT = Some (in_time d), outT = out_time d\<rparr>"

definition unmatched :: "faculty \<Rightarrow> joined" where
  "unmatched f = \<lparr>j_id = f_id f, j_name = f_name f, j_role = f_role f,
                  j_rate = rate_per_hour f, inT = None, outT = None\<rparr>"

text \<open>\<^verbatim>\<open>FROM faculty f LEFT JOIN dtr d ON ...\<close>: per person the events that satisfy
  the ON condition, or one row with NULL times when there is none.\<close>

definition join_person :: "(faculty \<Rightarrow> dtr \<Rightarrow> bool) \<Rightarrow> dtr list \<Rightarrow> faculty \<Rightarrow> joined list" where
  "join_person on tab f =
     (let ds = filter (on f) tab
      in if ds = [] then [unmatched f] else map (matched f) ds)"

definition left_join :: "(faculty \<Rightarrow> dtr \<Rightarrow> bool) \<Rightarrow> db \<Rightarrow> joined list" where
  "left_join on s = concat (map (join_person on (dtr_tab s)) (faculty_tab s))"

text \<open>
  \<^verbatim>\<open>x BETWEEN a AND b\<close>, which is not true of NULL. The comparison itself is
  carried out inside SQLite on what the database driver stored for a
  \<^verbatim>\<open>time.Time\<close>, neither of which is code of this program; the model takes it to
  be the order of the instants. A driver that stores the printed form of the time and
  lets SQLite compare the texts orders two times by their wall-clock readings, which
  is the order of the instants for times printed in one zone, and can differ from it
  for a bound in UTC and an event time in local time that lie closer together than
  the zone offset.
\<close>

definition between :: "time option \<Rightarrow> time \<Rightarrow> time \<Rightarrow> bool" where
  "between x a b = (case x of None \<Rightarrow> False | Some t \<Rightarrow> a \<le> t \<and> t \<le> b)"

text \<open>handlePayroll: \<^verbatim>\<open>LEFT JOIN dtr d ON d.faculty_id = f.id AND d.in_time BETWEEN ? AND ?\<close>.\<close>

definition payrollQuery :: "env \<Rightarrow> db \<Rightarrow> time \<Rightarrow> time \<Rightarrow> joined list option" where
  "payrollQuery e s start endt =
     (if payroll_query_fails e then None
      else Some (left_join (\<lambda>f d. faculty_id d = f_id f \<and> between (Some (in_time d)) start endt) s))"

text \<open>handlePayrollCSV: \<^verbatim>\<open>LEFT JOIN dtr d ON d.faculty_id=f.id WHERE d.in_time BETWEEN ? AND ?\<close>.\<close>

definition csvQuery :: "env \<Rightarrow> db \<Rightarrow> time \<Rightarrow> time \<Rightarrow> joined list option" where
  "csvQuery e s start endt =
     (if payroll_query_fails e then None
      else Some (filter (\<lambda>r. between (inT r) start endt)
                        (left_join (\<lambda>f d. faculty_id d = f_id f) s)))"

subsection \<open>handlePayroll\<close>

record Row =
  FacultyID :: int
  Name :: string
  Role :: string
  RatePerHour :: rat
  TotalHours :: rat
  Pay :: rat

text \<open>
  The Go map \<^verbatim>\<open>m\<close> is an association list with distinct keys, a new key going to the
  end. Go leaves the order in which \<^verbatim>\<open>range\<close> visits a map open; the model visits it
  in the order of insertion, so the rows of a report come in the order of the faculty
  table. With exact arithmetic neither the hours and pay of a row nor the grand total
  depend on that order.
\<close>

definition add_hours :: "rat \<Rightarrow> Row \<Rightarrow> Row" where
  "add_hours dur r = r\<lparr>TotalHours := TotalHours r + dur\<rparr>"

text \<open>The body of \<^verbatim>\<open>for rs.Next()\<close>.\<close>

definition accumulate :: "(int \<times> Row) list \<Rightarrow> joined \<Rightarrow> (int \<times> Row) list" where
  "accumulate m r =
     (let m1 = (case map_of m (j_id r) of
                  None \<Rightarrow> m @ [(j_id r, \<lparr>FacultyID = j_id r, Name = j_name r, Role = j_role r,
                                          RatePerHour = j_rate r, TotalHours = 0, Pay = 0\<rparr>)]
                | Some _ \<Rightarrow> m)
      in case (inT r, outT r) of
           (Some i, Some out) \<Rightarrow>
             (let dur = Hours (Sub out i)
              in if 0 < dur then AList.map_entry (j_id r) (add_hours dur) m1 else m1)
         | _ \<Rightarrow> m1)"

fun payroll_loop :: "(int \<times> Row) list \<Rightarrow> joined list \<Rightarrow> (int \<times> Row) list" where
  "payroll_loop m [] = m"
| "payroll_loop m (r # rs) = payroll_loop (accumulate m r) rs"

text \<open>The body of \<^verbatim>\<open>for _, r := range m\<close> and the loop, with \<^verbatim>\<open>rows\<close> and
  \<^verbatim>\<open>grand\<close> as accumulators.\<close>

definition finish_row :: "Row \<Rightarrow> Row" where
  "finish_row r =
     (let r1 = r\<lparr>TotalHours := Round (TotalHours r * 4) / 4\<rparr>
      in r1\<lparr>Pay := TotalHours r1 * RatePerHour r1\<rparr>)"

fun finish_loop :: "(int \<times> Row) list \<Rightarrow> Row list \<Rightarrow> rat \<Rightarrow> Row list \<times> rat" where
  "finish_loop [] rows grand = (rows, grand)"
| "finish_loop ((k, r) # m) rows grand =
     (let r' = finish_row r in finish_loop m (rows @ [r']) (grand + Pay r'))"

text \<open>
  The data handed to the template (the two dates unformatted). A failed
  \<^verbatim>\<open>db.Query\<close> is answered with status 500 and the error text of the driver, for
  which the string below stands; a failure of \<^verbatim>\<open>rs.Scan\<close> on a row that was read
  is not modelled.
\<close>

record payroll_data =
  Start :: time
  End :: time
  Rows :: "Row list"
  GrandTotal :: rat

definition handlePayroll ::
  "env \<Rightarrow> db \<Rightarrow> time \<Rightarrow> time option \<Rightarrow> time option \<Rightarrow> http_error + payroll_data" where
  "handlePayroll e s now pstart pend =
     (case date_range now pstart pend of
        (start, endt) \<Rightarrow>
          (case payrollQuery e s start endt of
             None \<Rightarrow> Inl (Http500 ''err.Error()'')
           | Some rs \<Rightarrow>
               (case finish_loop (payroll_loop [] rs) [] 0 of
                  (rows, grand) \<Rightarrow>
                    Inr \<lparr>Start = start, End = endt, Rows = rows, GrandTotal = grand\<rparr>)))"

subsection \<open>handlePayrollCSV\<close>

text \<open>The values of the map of the export, \<^verbatim>\<open>struct {name; role; rate; hours}\<close>; a
  key that is not in the map reads as the zero value.\<close>

record entry =
  name :: string
  role :: string
  rate :: rat
  hours :: rat

definition csv_accumulate :: "(int \<times> entry) list \<Rightarrow> joined \<Rightarrow> (int \<times> entry) list" where
  "csv_accumulate m r =
     (let tmp = (case map_of m (j_id r) of
                   None \<Rightarrow> \<lparr>name = [], role = [], rate = 0, hours = 0\<rparr>
                 | Some v \<Rightarrow> v);
          tmp1 = tmp\<lparr>name := j_name r, role := j_role r, rate := j_rate r\<rparr>;
          tmp2 = (case (inT r, outT r) of
                    (Some i, Some out) \<Rightarrow> tmp1\<lparr>hours := hours tmp1 + Hours (Sub out i)\<rparr>
                  | _ \<Rightarrow> tmp1)
      in AList.update (j_id r) tmp2 m)"

fun csv_loop :: "(int \<times> entry) list \<Rightarrow> joined list \<Rightarrow> (int \<times> entry) list" where
  "csv_loop m [] = m"
| "csv_loop m (r # rs) = csv_loop (csv_accumulate m r) rs"

text \<open>
  A record of the export, before \<^verbatim>\<open>strconv.Itoa\<close> and \<^verbatim>\<open>%.2f\<close> turn its six
  columns (FacultyID, Name, Role, Rate/hr, TotalHours, Pay) into text. The header line
  is not part of the result.
\<close>

definition csv_record :: "int \<times> entry \<Rightarrow> Row" where
  "csv_record p =
     (case p of
        (k, r) \<Rightarrow>
          (let h = Round (hours r * 4) / 4; pay = h * rate r
           in \<lparr>FacultyID = k, Name = name r, Role = role r, RatePerHour = rate r,
               TotalHours = h, Pay = pay\<rparr>))"

text \<open>The export discards the error of \<^verbatim>\<open>db.Query\<close>; after a failed query
  \<^verbatim>\<open>rs\<close> is nil and \<^verbatim>\<open>rs.Next()\<close> panics.\<close>

definition handlePayrollCSV ::
  "env \<Rightarrow> db \<Rightarrow> time \<Rightarrow> time option \<Rightarrow> time option \<Rightarrow> http_error + Row list" where
  "handlePayrollCSV e s now pstart pend =
     (case date_range now pstart pend of
        (start, endt) \<Rightarrow>
          (case csvQuery e s start endt of
             None \<Rightarrow> Inl Panic
           | Some rs \<Rightarrow> Inr (map csv_record (csv_loop [] rs))))"

subsection \<open>The aggregation in the words of the specification\<close>

text \<open>
  The hours that one event adds: nothing while it is open, nothing when its duration
  is not positive, its duration otherwise. The hours of a person over a range: the sum
  over the person's events whose in-time lies in the range.
\<close>

definition spec_contribution :: "dtr \<Rightarrow> rat" where
  "spec_contribution d =
     (case out_time d of
        None \<Rightarrow> 0
      | Some out \<Rightarrow> if 0 < Hours (Sub out (in_time d)) then Hours (Sub out (in_time d)) else 0)"

definition spec_events :: "time \<Rightarrow> time \<Rightarrow> int \<Rightarrow> dtr list \<Rightarrow> dtr list" where
  "spec_events start endt fid ds =
     filter (\<lambda>d. faculty_id d = fid \<and> start \<le> in_time d \<and> in_time d \<le> endt) ds"

definition spec_hours :: "time \<Rightarrow> time \<Rightarrow> int \<Rightarrow> dtr list \<Rightarrow> rat" where
  "spec_hours start endt fid ds = sum_list (map spec_contribution (spec_events start endt fid ds))"

definition spec_row :: "time \<Rightarrow> time \<Rightarrow> dtr list \<Rightarrow> faculty \<Rightarrow> Row" where
  "spec_row start endt ds f =
     (let h = Round (spec_hours start endt (f_id f) ds * 4) / 4
      in \<lparr>FacultyID = f_id f, Name = f_name f, Role = f_role f,
          RatePerHour = rate_per_hour f, TotalHours = h, Pay = h * rate_per_hour f\<rparr>)"

text \<open>The entry of \<^verbatim>\<open>m\<close> that the first result row of a person creates, and the
  entry once all of the person's result rows have been read.\<close>

definition new_row :: "faculty \<Rightarrow> Row" where
  "new_row f = \<lparr>FacultyID = f_id f, Name = f_name f, Role = f_role f,
                RatePerHour = rate_per_hour f, TotalHours = 0, Pay = 0\<rparr>"

definition acc_row :: "time \<Rightarrow> time \<Rightarrow> dtr list \<Rightarrow> faculty \<Rightarrow> int \<times> Row" where
  "acc_row start endt ds f = (f_id f, add_hours (spec_hours start endt (f_id f) ds) (new_row f))"

text \<open>What the specification asks of two scans of one token that arrive together: one
  of them clocks in, the other clocks out, and the person is not left with two open
  events.\<close>

definition serialized_outcome :: "int \<Rightarrow> pc \<times> pc \<times> db \<Rightarrow> bool" where
  "serialized_outcome fid c =
     (case c of
        (p1, p2, s') \<Rightarrow>
          ((p1 = Finished (Some ''Clock IN'') \<and> p2 = Finished (Some ''Clock OUT'')) \<or>
           (p1 = Finished (Some ''Clock OUT'') \<and> p2 = Finished (Some ''Clock IN''))) \<and>
          length (open_events fid (dtr_tab s')) \<le> 1)"

section \<open>Example data\<close>

text \<open>\<^verbatim>\<open>time.Hour\<close> in nanoseconds; a deactivated person paid 100 an hour, an active
  one paid 80; a database without events; one whose only event ends an hour before it
  starts; one in which the person worked from 08:00 to 12:30 and has a second event
  that ends an hour before it starts; one in which the first person worked from 08:00
  to 12:30 and the second not at all; and a request during which the open-event lookup
  fails.\<close>

definition hour :: int where
  "hour = 3600000000000"

definition ex_person :: faculty where
  "ex_person = \<lparr>f_id = 1, f_name = ''P'', f_role = ''Teacher'', rate_per_hour = 100,
                 active = 0, token = ''a1b2c3d4e5f60718''\<rparr>"

definition ex_idle :: faculty where
  "ex_idle = \<lparr>f_id = 2, f_name = ''Q'', f_role = ''Staff'', rate_per_hour = 80,
               active = 1, token = ''0f1e2d3c4b5a6978''\<rparr>"

definition ex_empty :: db where
  "ex_empty = \<lparr>faculty_tab = [ex_person], dtr_tab = [], dtr_seq = 0\<rparr>"

definition ex_reversed :: db where
  "ex_reversed =
     \<lparr>faculty_tab = [ex_person],
      dtr_tab = [\<lparr>d_id = 1, faculty_id = 1, in_time = 10 * hour, out_time = Some (9 * hour)\<rparr>],
      dtr_seq = 1\<rparr>"

definition ex_mixed :: db where
  "ex_mixed =
     \<lparr>faculty_tab = [ex_person],
      dtr_tab = [\<lparr>d_id = 1, faculty_id = 1, in_time = 8 * hour,
                  out_time = Some (12 * hour + 1800000000000)\<rparr>,
                 \<lparr>d_id = 2, faculty_id = 1, in_time = 14 * hour, out_time = Some (13 * hour)\<rparr>],
      dtr_seq = 2\<rparr>"

definition ex_day :: db where
  "ex_day =
     \<lparr>faculty_tab = [ex_person, ex_idle],
      dtr_tab = [\<lparr>d_id = 1, faculty_id = 1, in_time = 8 * hour,
                  out_time = Some (12 * hour + 1800000000000)\<rparr>],
      dtr_seq = 1\<rparr>"

text \<open>The report of that day, asked for at its end with no dates given.\<close>

definition ex_report :: payroll_data where
  "ex_report =
     \<lparr>Start = 0, End = 24 * hour,
      Rows = [\<lparr>FacultyID = 1, Name = ''P'', Role = ''Teacher'', RatePerHour = 100,
                TotalHours = 9 / 2, Pay = 450\<rparr>,
              \<lparr>FacultyID = 2, Name = ''Q'', Role = ''Staff'', RatePerHour = 80,
                TotalHours = 0, Pay = 0\<rparr>],
      GrandTotal = 450\<rparr>"

definition ex_lookup_fault :: env where
  "ex_lookup_fault = \<lparr>token_query_fails = False, open_query_fails = True,
                       exec_fails = False, payroll_query_fails = False\<rparr>"

section \<open>Facts about the scan handler\<close>

lemma most_recent_None [simp]: "most_recent ds = None \<longleftrightarrow> ds = []"
  by (induction ds) (auto split: option.splits)

lemma most_recent_mem: "most_recent ds = Some d \<Longrightarrow> d \<in> set ds"
  by (induction ds arbitrary: d) (auto split: option.splits if_splits)

lemma queryOpenEvent_ErrOther: "queryOpenEvent e s fid = ErrOther \<longleftrightarrow> open_query_fails e"
  by (auto simp: queryOpenEvent_def split: option.splits)

lemma close_fresh:
  assumes "list_all (\<lambda>d. d_id d \<le> n) ds"
  shows "map (\<lambda>d. if d_id d = n + 1 then d\<lparr>out_time := Some u\<rparr> else d) ds = ds"
  using assms by (induction ds) auto

lemma scan_in:
  assumes "find (\<lambda>f. token f = tok) (faculty_tab s) = Some f"
    and "open_events (f_id f) (dtr_tab s) = []"
  shows "handleScan no_faults s tok now =
           (Inr (Page ''Clock IN'' (f_name f) (f_role f) now),
            s\<lparr>dtr_tab := dtr_tab s @
                 [\<lparr>d_id = dtr_seq s + 1, faculty_id = f_id f, in_time = now, out_time = None\<rparr>],
              dtr_seq := dtr_seq s + 1\<rparr>)"
  using assms
  by (simp add: handleScan_def queryFaculty_def queryOpenEvent_def scanWrite_def
      execInsert_def no_faults_def)

lemma scan_out:
  assumes "find (\<lambda>f. token f = tok) (faculty_tab s) = Some f"
    and "open_events (f_id f) (dtr_tab s) = []"
    and "ids_issued s"
  shows "handleScan no_faults
           (s\<lparr>dtr_tab := dtr_tab s @
                 [\<lparr>d_id = dtr_seq s + 1, faculty_id = f_id f, in_time = t, out_time = None\<rparr>],
              dtr_seq := dtr_seq s + 1\<rparr>) tok u =
           (Inr (Page ''Clock OUT'' (f_name f) (f_role f) u),
            s\<lparr>dtr_tab := dtr_tab s @
                 [\<lparr>d_id = dtr_seq s + 1, faculty_id = f_id f, in_time = t, out_time = Some u\<rparr>],
              dtr_seq := dtr_seq s + 1\<rparr>)"
  using assms
  by (simp add: handleScan_def queryFaculty_def queryOpenEvent_def scanWrite_def
      execUpdate_def no_faults_def open_events_def ids_issued_def close_fresh)

lemma scan_all_general:
  assumes "find (\<lambda>f. token f = tok) (faculty_tab s) = Some f"
    and "open_events (f_id f) (dtr_tab s) = []"
    and "ids_issued s"
  shows "scan_all no_faults s tok nows =
           (expected_pages f False nows,
            s\<lparr>dtr_tab := dtr_tab s @ expected_log (f_id f) (dtr_seq s) nows,
              dtr_seq := dtr_seq s + int ((length nows + 1) div 2)\<rparr>)"
  using assms
proof (induction nows arbitrary: s rule: induct_list012)
  case 1
  then show ?case by simp
next
  case (2 t)
  then show ?case by (simp add: scan_in)
next
  case (3 t u ts)
  let ?s2 = "s\<lparr>dtr_tab := dtr_tab s @
                 [\<lparr>d_id = dtr_seq s + 1, faculty_id = f_id f, in_time = t, out_time = Some u\<rparr>],
              dtr_seq := dtr_seq s + 1\<rparr>"
  have a: "find (\<lambda>f. token f = tok) (faculty_tab ?s2) = Some f"
    using 3 by simp
  have b: "open_events (f_id f) (dtr_tab ?s2) = []"
    using 3 by (simp add: open_events_def)
  have c: "ids_issued ?s2"
    using 3(5) by (auto simp: ids_issued_def list_all_iff intro: order_trans)
  show ?case
    using 3(1)[OF a b c] 3(3,4,5)
    by (simp add: scan_in scan_out)
qed

lemma serial_12:
  assumes "open_events fid (dtr_tab s) = []" "ids_issued s"
  shows "two_scans no_faults [False, False, True, True] s fid now1 now2 =
     (Finished (Some ''Clock IN''), Finished (Some ''Clock OUT''),
      s\<lparr>dtr_tab := dtr_tab s @
           [\<lparr>d_id = dtr_seq s + 1, faculty_id = fid, in_time = now1, out_time = Some now2\<rparr>],
        dtr_seq := dtr_seq s + 1\<rparr>)"
  using assms
  by (simp add: two_scans_def worker_step_def queryOpenEvent_def scanWrite_def
      execInsert_def execUpdate_def no_faults_def open_events_def ids_issued_def close_fresh)

lemma serial_21:
  assumes "open_events fid (dtr_tab s) = []" "ids_issued s"
  shows "two_scans no_faults [True, True, False, False] s fid now1 now2 =
     (Finished (Some ''Clock OUT''), Finished (Some ''Clock IN''),
      s\<lparr>dtr_tab := dtr_tab s @
           [\<lparr>d_id = dtr_seq s + 1, faculty_id = fid, in_time = now2, out_time = Some now1\<rparr>],
        dtr_seq := dtr_seq s + 1\<rparr>)"
  using assms
  by (simp add: two_scans_def worker_step_def queryOpenEvent_def scanWrite_def
      execInsert_def execUpdate_def no_faults_def open_events_def ids_issued_def close_fresh)

lemma racy:
  assumes "open_events fid (dtr_tab s) = []"
    and "sched \<in> {[False, True, False, True], [False, True, True, False],
                   [True, False, False, True], [True, False, True, False]}"
  shows "\<exists>s'. two_scans no_faults sched s fid now1 now2 =
           (Finished (Some ''Clock IN''), Finished (Some ''Clock IN''), s') \<and>
           length (open_events fid (dtr_tab s')) = 2"
  using assms
  by (auto simp: two_scans_def worker_step_def queryOpenEvent_def scanWrite_def
      execInsert_def no_faults_def open_events_def)

lemma find_set_active:
  "find (\<lambda>f. token f = tok) (map (\<lambda>f. f\<lparr>active := g f\<rparr>) fs) =
     map_option (\<lambda>f. f\<lparr>active := g f\<rparr>) (find (\<lambda>f. token f = tok) fs)"
  by (induction fs) auto

lemma handleScan_set_active:
  "handleScan e (set_active g s) tok now =
     (fst (handleScan e s tok now), set_active g (snd (handleScan e s tok now)))"
  by (auto simp: handleScan_def queryFaculty_def find_set_active set_active_def
      queryOpenEvent_def scanWrite_def execInsert_def execUpdate_def
      split: option.splits lookup.splits)

lemma close_changes:
  assumes "d \<in> set ds" "out_time d = None"
  shows "map (\<lambda>x. if d_id x = d_id d then x\<lparr>out_time := Some u\<rparr> else x) ds \<noteq> ds"
proof
  assume "map (\<lambda>x. if d_id x = d_id d then x\<lparr>out_time := Some u\<rparr> else x) ds = ds"
  then have "\<forall>x\<in>set ds. (if d_id x = d_id d then x\<lparr>out_time := Some u\<rparr> else x) = x"
    by (simp add: map_idI map_eq_conv[where g = "\<lambda>x. x", simplified])
  with assms(1) have "d\<lparr>out_time := Some u\<rparr> = d" by auto
  then have "out_time (d\<lparr>out_time := Some u\<rparr>) = out_time d" by simp
  with assms(2) show False by simp
qed

lemma open_events_subset: "d \<in> set (open_events fid ds) \<Longrightarrow> d \<in> set ds \<and> out_time d = None"
  by (simp add: open_events_def)

lemma handleScan_records:
  assumes "find (\<lambda>f. token f = tok) (faculty_tab s) = Some f"
  shows "\<exists>st s'. handleScan no_faults s tok now = (Inr (Page st (f_name f) (f_role f) now), s') \<and>
           (st = ''Clock IN'' \<or> st = ''Clock OUT'') \<and> dtr_tab s' \<noteq> dtr_tab s"
proof (cases "most_recent (open_events (f_id f) (dtr_tab s))")
  case None
  with assms show ?thesis
    by (simp add: handleScan_def queryFaculty_def queryOpenEvent_def scanWrite_def
      execInsert_def no_faults_def)
next
  case (Some d)
  from most_recent_mem[OF Some] have "d \<in> set (dtr_tab s)" "out_time d = None"
    by (auto dest: open_events_subset)
  from close_changes[OF this] Some assms show ?thesis
    by (simp add: handleScan_def queryFaculty_def queryOpenEvent_def scanWrite_def
      execUpdate_def no_faults_def)
qed

section \<open>Facts about the payroll handlers\<close>

lemma payroll_loop_append:
  "payroll_loop m (xs @ ys) = payroll_loop (payroll_loop m xs) ys"
  by (induction xs arbitrary: m) auto

lemma map_of_last: "k \<notin> fst ` set m \<Longrightarrow> map_of (m @ [(k, v)]) k = Some v"
  by (induction m) auto

lemma map_of_absent: "k \<notin> fst ` set m \<Longrightarrow> map_of m k = None"
  by (simp add: map_of_eq_None_iff)

lemma map_entry_last:
  "k \<notin> fst ` set m \<Longrightarrow> AList.map_entry k g (m @ [(k, v)]) = m @ [(k, g v)]"
  by (induction m) auto

lemma add_hours_0 [simp]: "add_hours 0 r = r"
  by (simp add: add_hours_def)

lemma add_hours_add [simp]: "add_hours a (add_hours b r) = add_hours (b + a) r"
  by (simp add: add_hours_def)

lemma accumulate_present:
  assumes "f_id f \<notin> fst ` set m"
  shows "accumulate (m @ [(f_id f, v)]) (matched f d) =
           m @ [(f_id f, add_hours (spec_contribution d) v)]"
  using assms
  by (cases "out_time d")
     (simp_all add: accumulate_def matched_def map_of_last map_entry_last spec_contribution_def
        Let_def del: map_of_append)

lemma accumulate_absent_matched:
  assumes "f_id f \<notin> fst ` set m"
  shows "accumulate m (matched f d) = m @ [(f_id f, add_hours (spec_contribution d) (new_row f))]"
  using assms
  by (cases "out_time d")
     (simp_all add: accumulate_def matched_def map_of_absent map_entry_last
        spec_contribution_def Let_def new_row_def)

lemma accumulate_absent_unmatched:
  assumes "f_id f \<notin> fst ` set m"
  shows "accumulate m (unmatched f) = m @ [(f_id f, new_row f)]"
  using assms
  by (simp add: accumulate_def unmatched_def map_of_absent new_row_def)

lemma payroll_loop_present:
  assumes "f_id f \<notin> fst ` set m"
  shows "payroll_loop (m @ [(f_id f, v)]) (map (matched f) ds) =
           m @ [(f_id f, add_hours (sum_list (map spec_contribution ds)) v)]"
  using assms
  by (induction ds arbitrary: v) (simp_all add: accumulate_present)

lemma payroll_loop_person:
  assumes "f_id f \<notin> fst ` set m"
  shows "payroll_loop m (if ds = [] then [unmatched f] else map (matched f) ds) =
           m @ [(f_id f, add_hours (sum_list (map spec_contribution ds)) (new_row f))]"
proof (cases ds)
  case Nil
  with assms show ?thesis by (simp add: accumulate_absent_unmatched)
next
  case (Cons d ds')
  with assms show ?thesis
    by (simp add: accumulate_absent_matched payroll_loop_present)
qed

lemma payroll_loop_join_person:
  assumes "f_id f \<notin> fst ` set m"
  shows "payroll_loop m
           (join_person (\<lambda>f d. faculty_id d = f_id f \<and> between (Some (in_time d)) start endt) tab f) =
         m @ [acc_row start endt tab f]"
proof -
  have "filter (\<lambda>d. faculty_id d = f_id f \<and> between (Some (in_time d)) start endt) tab =
           spec_events start endt (f_id f) tab"
    by (simp add: spec_events_def between_def)
  then show ?thesis
    using payroll_loop_person[OF assms, of "spec_events start endt (f_id f) tab"]
    by (simp add: join_person_def acc_row_def spec_hours_def Let_def)
qed

lemma payroll_loop_join:
  assumes "distinct (map f_id fs)" and "f_id ` set fs \<inter> fst ` set m = {}"
  shows "payroll_loop m
           (concat (map (join_person (\<lambda>f d. faculty_id d = f_id f \<and>
                                            between (Some (in_time d)) start endt) tab) fs)) =
         m @ map (acc_row start endt tab) fs"
  using assms
proof (induction fs arbitrary: m)
  case Nil
  then show ?case by simp
next
  case (Cons f fs)
  have k: "f_id f \<notin> fst ` set m" using Cons.prems(2) by auto
  have d: "distinct (map f_id fs)" using Cons.prems(1) by simp
  have i: "f_id ` set fs \<inter> fst ` set (m @ [acc_row start endt tab f]) = {}"
    using Cons.prems by (auto simp: acc_row_def)
  show ?case
    using Cons.IH[OF d i]
    by (simp add: payroll_loop_append payroll_loop_join_person[OF k])
qed

lemma finish_loop_eq:
  "finish_loop m rows grand =
     (rows @ map (\<lambda>p. finish_row (snd p)) m,
      grand + sum_list (map (\<lambda>p. Pay (finish_row (snd p))) m))"
  by (induction m arbitrary: rows grand) (auto simp: Let_def)

lemma finish_acc_row: "finish_row (snd (acc_row start endt tab f)) = spec_row start endt tab f"
  by (simp add: finish_row_def acc_row_def spec_row_def add_hours_def new_row_def Let_def)

lemma handlePayroll_refines:
  assumes "\<not> payroll_query_fails e" and "distinct (map f_id (faculty_tab s))"
    and "date_range now pstart pend = (start, endt)"
  shows "handlePayroll e s now pstart pend =
           Inr \<lparr>Start = start, End = endt,
                Rows = map (spec_row start endt (dtr_tab s)) (faculty_tab s),
                GrandTotal = sum_list (map Pay (map (spec_row start endt (dtr_tab s)) (faculty_tab s)))\<rparr>"
  using assms payroll_loop_join[of "faculty_tab s" "[]" start endt "dtr_tab s"]
  by (simp add: handlePayroll_def payrollQuery_def left_join_def finish_loop_eq
      finish_acc_row comp_def)

lemma handlePayroll_grand:
  assumes "handlePayroll e s now pstart pend = Inr rep"
  shows "GrandTotal rep = sum_list (map Pay (Rows rep))"
  using assms
  by (auto simp: handlePayroll_def finish_loop_eq comp_def split: prod.splits option.splits)

lemma Round_int: "\<exists>k::int. Round x = of_int k"
  by (auto simp: Round_def intro: exI[of _ "- \<lfloor>- x + 1 / 2\<rfloor>"])

lemma Round_nonneg: "0 \<le> x \<Longrightarrow> 0 \<le> Round x"
  by (simp add: Round_def)

lemma spec_contribution_nonneg: "0 \<le> spec_contribution d"
  by (simp add: spec_contribution_def split: option.splits)

lemma spec_hours_nonneg: "0 \<le> spec_hours start endt fid ds"
  unfolding spec_hours_def by (rule sum_list_nonneg) (auto simp: spec_contribution_nonneg)

lemma ex_day_report: "handlePayroll no_faults ex_day (24 * hour) None None = Inr ex_report"
  by code_simp

lemma ex_day_distinct: "distinct (map f_id (faculty_tab ex_day))"
  by (simp add: ex_day_def ex_person_def ex_idle_def)

lemma ex_day_range: "date_range (24 * hour) None None = (0, 24 * hour)"
  by (simp add: date_range_def parsed_def IsZero_def zeroTime_def)

lemma handlePayroll_Inr:
  "handlePayroll e s now pstart pend = Inr rep \<Longrightarrow> \<not> payroll_query_fails e"
  by (auto simp: handlePayroll_def payrollQuery_def split: prod.splits if_splits)

lemma finish_row_hours: "TotalHours (finish_row x) = Round (TotalHours x * 4) / 4"
  by (simp add: finish_row_def Let_def)

lemma finish_row_pay: "Pay (finish_row x) = TotalHours (finish_row x) * RatePerHour (finish_row x)"
  by (simp add: finish_row_def Let_def)

lemma quarter_multiple: "\<exists>k::int. Round x / 4 = of_int k / 4"
  using Round_int[of x] by auto

lemma finish_row_law:
  "Pay (finish_row x) = TotalHours (finish_row x) * RatePerHour (finish_row x) \<and>
   (\<exists>k::int. TotalHours (finish_row x) = of_int k / 4)"
proof
  show "Pay (finish_row x) = TotalHours (finish_row x) * RatePerHour (finish_row x)"
    by (rule finish_row_pay)
  show "\<exists>k::int. TotalHours (finish_row x) = of_int k / 4"
    unfolding finish_row_hours by (rule quarter_multiple)
qed

lemma Round_0 [simp]: "Round 0 = 0"
  by code_simp

lemma spec_row_idle:
  "spec_events start endt (f_id f) ds = [] \<Longrightarrow> spec_row start endt ds f = new_row f"
  by (simp add: spec_row_def spec_hours_def new_row_def)

lemma handlePayroll_rows:
  assumes "handlePayroll e s now pstart pend = Inr rep"
    and "distinct (map f_id (faculty_tab s))"
    and "date_range now pstart pend = (start, endt)"
  shows "Rows rep = map (spec_row start endt (dtr_tab s)) (faculty_tab s)"
  using handlePayroll_refines[OF handlePayroll_Inr[OF assms(1)] assms(2,3)] assms(1) by auto

lemma FacultyID_spec_row [simp]: "FacultyID (spec_row start endt ds f) = f_id f"
  by (simp add: spec_row_def Let_def)

lemma handlePayroll_hours_nonneg:
  assumes "handlePayroll e s now pstart pend = Inr rep"
    and "distinct (map f_id (faculty_tab s))" and "r \<in> set (Rows rep)"
  shows "0 \<le> TotalHours r"
proof -
  obtain start endt where d: "date_range now pstart pend = (start, endt)"
    by (cases "date_range now pstart pend")
  from handlePayroll_rows[OF assms(1,2) d] assms(3)
  obtain f where "r = spec_row start endt (dtr_tab s) f" by auto
  then show ?thesis
    by (simp add: spec_row_def Let_def Round_nonneg spec_hours_nonneg)
qed

section \<open>The claims about the scan handler\<close>

text \<open>
  C1. A person scans several times, one request after the other, with no event in the
  log at the start and no storage fault. The pages alternate Clock IN, Clock OUT,
  Clock IN, ..., beginning with Clock IN. Each clock-in appends one open event with the
  time of the scan, each clock-out sets the out-time of that event, and nothing else
  changes: the log afterwards pairs the scan times two by two, the last event being
  open when the number of scans is odd, and the faculty table is as before.
\<close>

theorem scan_alternation:
  assumes "find (\<lambda>f. token f = tok) (faculty_tab s) = Some f"
    and "dtr_tab s = []"
  shows "scan_all no_faults s tok nows =
           (expected_pages f False nows,
            s\<lparr>dtr_tab := expected_log (f_id f) (dtr_seq s) nows,
              dtr_seq := dtr_seq s + int ((length nows + 1) div 2)\<rparr>)"
  using assms scan_all_general[of tok s f nows]
  by (simp add: open_events_def ids_issued_def)

theorem scan_alternation_witness:
  "find (\<lambda>f. token f = ''a1b2c3d4e5f60718'') (faculty_tab ex_empty) = Some ex_person \<and>
   dtr_tab ex_empty = [] \<and>
   scan_all no_faults ex_empty ''a1b2c3d4e5f60718'' [8 * hour, 12 * hour, 13 * hour] =
     ([Inr (Page ''Clock IN'' ''P'' ''Teacher'' (8 * hour)),
       Inr (Page ''Clock OUT'' ''P'' ''Teacher'' (12 * hour)),
       Inr (Page ''Clock IN'' ''P'' ''Teacher'' (13 * hour))],
      \<lparr>faculty_tab = [ex_person],
       dtr_tab = [\<lparr>d_id = 1, faculty_id = 1, in_time = 8 * hour, out_time = Some (12 * hour)\<rparr>,
                  \<lparr>d_id = 2, faculty_id = 1, in_time = 13 * hour, out_time = None\<rparr>],
       dtr_seq = 2\<rparr>)"
proof -
  have a: "find (\<lambda>f. token f = ''a1b2c3d4e5f60718'') (faculty_tab ex_empty) = Some ex_person"
    by (simp add: ex_empty_def ex_person_def)
  have b: "dtr_tab ex_empty = []"
    by (simp add: ex_empty_def)
  show ?thesis
    using a b scan_alternation[OF a b, of "[8 * hour, 12 * hour, 13 * hour]"]
    by (simp add: ex_empty_def ex_person_def)
qed

text \<open>
  C8. When the lookup of the open event fails with an error other than
  \<^verbatim>\<open>sql.ErrNoRows\<close>, the handler answers 500 "DB error" and the database after the
  request is the database before it: no event is inserted and none is closed.
\<close>

theorem scan_lookup_failure_atomic:
  assumes "queryFaculty e s tok = Some f"
    and "queryOpenEvent e s (f_id f) = ErrOther"
  shows "handleScan e s tok now = (Inl (Http500 ''DB error''), s)"
  using assms by (simp add: handleScan_def scanWrite_def)

theorem scan_lookup_failure_atomic_witness:
  "queryFaculty ex_lookup_fault ex_day ''a1b2c3d4e5f60718'' = Some ex_person \<and>
   queryOpenEvent ex_lookup_fault ex_day (f_id ex_person) = ErrOther \<and>
   handleScan ex_lookup_fault ex_day ''a1b2c3d4e5f60718'' (13 * hour) =
     (Inl (Http500 ''DB error''), ex_day)"
proof -
  have a: "queryFaculty ex_lookup_fault ex_day ''a1b2c3d4e5f60718'' = Some ex_person"
    by (simp add: queryFaculty_def ex_lookup_fault_def ex_day_def ex_person_def)
  have b: "queryOpenEvent ex_lookup_fault ex_day (f_id ex_person) = ErrOther"
    by (simp add: queryOpenEvent_def ex_lookup_fault_def)
  show ?thesis
    using a b scan_lookup_failure_atomic[OF a b, of "13 * hour"] by simp
qed

text \<open>
  C9, as the specification states it: two scans of one token that run at the same time
  give one clock-in and one clock-out and never two open events. The handler has no
  transaction around its lookup and its write. In the schedule lookup, lookup, write,
  write both requests find no open event, both insert one and both report Clock IN.
\<close>

theorem concurrent_scans_counterexample:
  "\<not> serialized_outcome 1
       (two_scans no_faults [False, True, False, True] ex_empty 1 (8 * hour) (8 * hour))"
  by (simp add: serialized_outcome_def two_scans_def worker_step_def queryOpenEvent_def
      scanWrite_def execInsert_def no_faults_def open_events_def ex_empty_def)

text \<open>
  C9, amended. For a person without an open event and two requests for that person's
  token, each taking its lookup step and its write step: the outcome is one Clock IN,
  one Clock OUT and at most one open event exactly when the two requests do not
  overlap, that is when one request has written before the other looks up. In each of
  the four overlapping schedules the outcome is not of that kind.
\<close>

theorem two_scans_serialized_iff:
  assumes "open_events fid (dtr_tab s) = []" and "ids_issued s"
    and "sched \<in> set complete_schedules"
  shows "serialized_outcome fid (two_scans no_faults sched s fid now1 now2) \<longleftrightarrow>
           sched = [False, False, True, True] \<or> sched = [True, True, False, False]"
proof (cases "sched = [False, False, True, True] \<or> sched = [True, True, False, False]")
  case True
  then show ?thesis
    using assms(1) serial_12[OF assms(1,2)] serial_21[OF assms(1,2)]
    by (auto simp: serialized_outcome_def open_events_def)
next
  case False
  with assms(3) have "sched \<in> {[False, True, False, True], [False, True, True, False],
                   [True, False, False, True], [True, False, True, False]}"
    by (auto simp: complete_schedules_def)
  from racy[OF assms(1) this, of now1 now2] False show ?thesis
    by (auto simp: serialized_outcome_def)
qed

theorem two_scans_serialized_iff_witness:
  "open_events 1 (dtr_tab ex_empty) = [] \<and> ids_issued ex_empty \<and>
   [False, False, True, True] \<in> set complete_schedules \<and>
   serialized_outcome 1
     (two_scans no_faults [False, False, True, True] ex_empty 1 (8 * hour) (8 * hour))"
proof -
  have a: "open_events 1 (dtr_tab ex_empty) = []"
    by (simp add: ex_empty_def open_events_def)
  have b: "ids_issued ex_empty"
    by (simp add: ex_empty_def ids_issued_def)
  have c: "[False, False, True, True] \<in> set complete_schedules"
    by (simp add: complete_schedules_def)
  show ?thesis
    using a b c two_scans_serialized_iff[OF a b c, of "8 * hour" "8 * hour"] by simp
qed

text \<open>
  C10. The token lookup has no condition on the \<^verbatim>\<open>active\<close> column. For a token
  that belongs to a person, a scan without storage faults answers with a Clock IN or
  Clock OUT page for that person and changes the log, and it gives the same page and
  the same log whatever values the \<^verbatim>\<open>active\<close> column holds, so also for a
  deactivated person.
\<close>

theorem scan_ignores_active:
  assumes "find (\<lambda>f. token f = tok) (faculty_tab s) = Some f"
  shows "\<exists>st s'. handleScan no_faults s tok now = (Inr (Page st (f_name f) (f_role f) now), s') \<and>
           handleScan no_faults (set_active g s) tok now =
             (Inr (Page st (f_name f) (f_role f) now), set_active g s') \<and>
           (st = ''Clock IN'' \<or> st = ''Clock OUT'') \<and> dtr_tab s' \<noteq> dtr_tab s"
proof -
  from handleScan_records[OF assms, of now] obtain st s' where
    h: "handleScan no_faults s tok now = (Inr (Page st (f_name f) (f_role f) now), s')"
      "st = ''Clock IN'' \<or> st = ''Clock OUT''" "dtr_tab s' \<noteq> dtr_tab s"
    by blast
  have "handleScan no_faults (set_active g s) tok now =
          (Inr (Page st (f_name f) (f_role f) now), set_active g s')"
    using h(1) by (simp add: handleScan_set_active)
  with h show ?thesis by blast
qed

theorem scan_ignores_active_witness:
  "find (\<lambda>f. token f = ''a1b2c3d4e5f60718'') (faculty_tab ex_empty) = Some ex_person \<and>
   active ex_person = 0 \<and>
   (\<exists>st s'. handleScan no_faults ex_empty ''a1b2c3d4e5f60718'' (8 * hour) =
               (Inr (Page st ''P'' ''Teacher'' (8 * hour)), s') \<and>
             (st = ''Clock IN'' \<or> st = ''Clock OUT'') \<and> dtr_tab s' \<noteq> [])"
proof -
  have a: "find (\<lambda>f. token f = ''a1b2c3d4e5f60718'') (faculty_tab ex_empty) = Some ex_person"
    by (simp add: ex_empty_def ex_person_def)
  have b: "f_name ex_person = ''P''" "f_role ex_person = ''Teacher''" "active ex_person = 0"
    "dtr_tab ex_empty = []"
    by (simp_all add: ex_empty_def ex_person_def)
  show ?thesis
    using a b scan_ignores_active[OF a, of "8 * hour" "\<lambda>f. active f"] by auto
qed

section \<open>The claims about the payroll handlers\<close>

text \<open>
  C2. The specification: an event adds to a person's hours only when it is closed and
  its duration is positive, so no total is negative. \<^verbatim>\<open>handlePayroll\<close> guards the
  addition with \<^verbatim>\<open>if dur > 0\<close> (see \<open>handlePayroll_hours_nonneg\<close>);
  \<^verbatim>\<open>handlePayrollCSV\<close> adds the duration of every closed event. On a database
  whose only event ends an hour before it starts, the export gives the person -1 hour
  and a pay of -100, where the report page gives 0 and 0.
\<close>

theorem csv_subtracts_reversed_event:
  "handlePayrollCSV no_faults ex_reversed (24 * hour) None None =
     Inr [\<lparr>FacultyID = 1, Name = ''P'', Role = ''Teacher'', RatePerHour = 100,
           TotalHours = - 1, Pay = - 100\<rparr>] \<and>
   handlePayroll no_faults ex_reversed (24 * hour) None None =
     Inr \<lparr>Start = 0, End = 24 * hour,
          Rows = [\<lparr>FacultyID = 1, Name = ''P'', Role = ''Teacher'', RatePerHour = 100,
                    TotalHours = 0, Pay = 0\<rparr>],
          GrandTotal = 0\<rparr>"
  by code_simp

text \<open>
  C3. The specification: the export holds the same rows as the report page. The query
  of the export filters the joined rows by \<^verbatim>\<open>WHERE d.in_time BETWEEN ? AND ?\<close>,
  which removes the row of a person without events in the range. On a database with
  one person who worked from 08:00 to 12:30 and one who did not work, the report page
  has a row for each and the export has a row for the first person only.
\<close>

theorem csv_drops_person_without_events:
  "handlePayroll no_faults ex_day (24 * hour) None None =
     Inr \<lparr>Start = 0, End = 24 * hour,
          Rows = [\<lparr>FacultyID = 1, Name = ''P'', Role = ''Teacher'', RatePerHour = 100,
                    TotalHours = 9 / 2, Pay = 450\<rparr>,
                  \<lparr>FacultyID = 2, Name = ''Q'', Role = ''Staff'', RatePerHour = 80,
                    TotalHours = 0, Pay = 0\<rparr>],
          GrandTotal = 450\<rparr> \<and>
   handlePayrollCSV no_faults ex_day (24 * hour) None None =
     Inr [\<lparr>FacultyID = 1, Name = ''P'', Role = ''Teacher'', RatePerHour = 100,
           TotalHours = 9 / 2, Pay = 450\<rparr>]"
  by code_simp

text \<open>
  C4. When \<^verbatim>\<open>handlePayroll\<close> produces a report and the ids of the faculty table
  are distinct (\<^verbatim>\<open>id\<close> is the primary key), every person of the table, active or
  not, has exactly one row in the report: the ids of the rows are distinct, they are
  the ids of the table, and there are as many rows as persons. The row of a person is
  the one the specification describes, and for a person without an event in the range
  it carries the person's name, role and rate with 0 hours and 0 pay.
\<close>

theorem payroll_complete:
  assumes "handlePayroll e s now pstart pend = Inr rep"
    and "distinct (map f_id (faculty_tab s))"
    and "date_range now pstart pend = (start, endt)"
  shows "distinct (map FacultyID (Rows rep)) \<and>
         FacultyID ` set (Rows rep) = f_id ` set (faculty_tab s) \<and>
         length (Rows rep) = length (faculty_tab s) \<and>
         (\<forall>f\<in>set (faculty_tab s).
            spec_row start endt (dtr_tab s) f \<in> set (Rows rep) \<and>
            (spec_events start endt (f_id f) (dtr_tab s) = [] \<longrightarrow> new_row f \<in> set (Rows rep)))"
proof -
  have r: "Rows rep = map (spec_row start endt (dtr_tab s)) (faculty_tab s)"
    by (rule handlePayroll_rows[OF assms])
  have "map FacultyID (Rows rep) = map f_id (faculty_tab s)"
    by (simp add: r comp_def)
  moreover have "\<forall>f\<in>set (faculty_tab s).
            spec_row start endt (dtr_tab s) f \<in> set (Rows rep) \<and>
            (spec_events start endt (f_id f) (dtr_tab s) = [] \<longrightarrow> new_row f \<in> set (Rows rep))"
    using r by (auto simp: spec_row_idle[symmetric])
  ultimately show ?thesis
    using assms(2) by (metis length_map list.set_map)
qed

theorem payroll_complete_witness:
  "handlePayroll no_faults ex_day (24 * hour) None None = Inr ex_report \<and>
   distinct (map f_id (faculty_tab ex_day)) \<and>
   date_range (24 * hour) None None = (0, 24 * hour) \<and>
   distinct (map FacultyID (Rows ex_report)) \<and>
   FacultyID ` set (Rows ex_report) = {1, 2} \<and>
   length (Rows ex_report) = 2 \<and>
   spec_events 0 (24 * hour) (f_id ex_idle) (dtr_tab ex_day) = [] \<and>
   new_row ex_idle \<in> set (Rows ex_report)"
proof -
  have i: "ex_idle \<in> set (faculty_tab ex_day)"
    by (simp add: ex_day_def)
  have n: "spec_events 0 (24 * hour) (f_id ex_idle) (dtr_tab ex_day) = []"
    by (simp add: spec_events_def ex_day_def ex_idle_def)
  have f: "f_id ` set (faculty_tab ex_day) = {1, 2}"
    by (auto simp: ex_day_def ex_person_def ex_idle_def)
  have l: "length (faculty_tab ex_day) = 2"
    by (simp add: ex_day_def)
  show ?thesis
    using payroll_complete[OF ex_day_report ex_day_distinct ex_day_range] i n f l
      ex_day_report ex_day_distinct ex_day_range
    by auto
qed

text \<open>
  C5. The specification: the hours of every payroll row are \<open>Round (h * 4) / 4\<close>
  with \<open>h\<close> the sum of the person's qualifying durations (closed events of positive
  duration with in-time in the range), and the pay is that figure times the rate.
  \<^verbatim>\<open>handlePayroll\<close> builds \<open>h\<close> under the test \<^verbatim>\<open>if dur > 0\<close>;
  \<^verbatim>\<open>handlePayrollCSV\<close> rounds the sum of all closed durations. For a person with
  one event from 08:00 to 12:30 and one that ends an hour before it starts, the
  qualifying durations sum to 4.5 hours and the rounded figure is 4.5; the report page
  has 4.5 hours and a pay of 450, the export has 3.5 hours and a pay of 350.
\<close>

theorem csv_rounds_unqualified_sum:
  "spec_hours 0 (24 * hour) 1 (dtr_tab ex_mixed) = 9 / 2 \<and>
   Round (spec_hours 0 (24 * hour) 1 (dtr_tab ex_mixed) * 4) / 4 = 9 / 2 \<and>
   handlePayroll no_faults ex_mixed (24 * hour) None None =
     Inr \<lparr>Start = 0, End = 24 * hour,
          Rows = [\<lparr>FacultyID = 1, Name = ''P'', Role = ''Teacher'', RatePerHour = 100,
                    TotalHours = 9 / 2, Pay = 450\<rparr>],
          GrandTotal = 450\<rparr> \<and>
   handlePayrollCSV no_faults ex_mixed (24 * hour) None None =
     Inr [\<lparr>FacultyID = 1, Name = ''P'', Role = ''Teacher'', RatePerHour = 100,
           TotalHours = 7 / 2, Pay = 350\<rparr>]"
  by code_simp

text \<open>
  C6. In every report of \<^verbatim>\<open>handlePayroll\<close> the grand total is the sum of the pay
  of the rows, each pay being the row's hours, already rounded to quarter hours, times
  its rate. The sum itself is not rounded.
\<close>

theorem grand_total_consistent:
  assumes "handlePayroll e s now pstart pend = Inr rep"
  shows "GrandTotal rep = sum_list (map Pay (Rows rep)) \<and>
         (\<forall>r\<in>set (Rows rep). Pay r = TotalHours r * RatePerHour r \<and>
                               (\<exists>k::int. TotalHours r = of_int k / 4))"
proof -
  from assms obtain m :: "(int \<times> Row) list"
    where m: "Rows rep = map (\<lambda>p. finish_row (snd p)) m"
    by (auto simp: handlePayroll_def finish_loop_eq split: prod.splits option.splits)
  have "\<forall>r\<in>set (Rows rep). Pay r = TotalHours r * RatePerHour r \<and>
                               (\<exists>k::int. TotalHours r = of_int k / 4)"
  proof
    fix r
    assume "r \<in> set (Rows rep)"
    then obtain p where "r = finish_row (snd p)"
      unfolding m by auto
    then show "Pay r = TotalHours r * RatePerHour r \<and> (\<exists>k::int. TotalHours r = of_int k / 4)"
      by (simp only: finish_row_law)
  qed
  with handlePayroll_grand[OF assms] show ?thesis by blast
qed

theorem grand_total_consistent_witness:
  "handlePayroll no_faults ex_day (24 * hour) None None = Inr ex_report \<and>
   GrandTotal ex_report = 450 \<and> sum_list (map Pay (Rows ex_report)) = 450 + 0"
proof -
  have "sum_list (map Pay (Rows ex_report)) = 450 + 0"
    by (simp add: ex_report_def)
  then show ?thesis
    using grand_total_consistent[OF ex_day_report] ex_day_report by simp
qed

text \<open>
  C7. The specification: a request whose start date lies after its end date is not
  refused, finds no event and reports every person with 0 hours and 0 pay. Both
  handlers read their dates by the same lines (\<open>date_range\<close>) and neither refuses
  such a range. For the start date January 3 and the end date January 2 of year 1, on
  the database with two persons, \<^verbatim>\<open>handlePayroll\<close> reports both persons with 0
  hours and 0 pay; \<^verbatim>\<open>handlePayrollCSV\<close> reports no person at all, since its
  \<^verbatim>\<open>WHERE\<close> clause removes the rows of persons without an event in the range.
\<close>

theorem csv_empty_on_reversed_range:
  "date_range (72 * hour) (Some (48 * hour)) (Some (24 * hour)) = (48 * hour, 24 * hour) \<and>
   handlePayroll no_faults ex_day (72 * hour) (Some (48 * hour)) (Some (24 * hour)) =
     Inr \<lparr>Start = 48 * hour, End = 24 * hour,
          Rows = [\<lparr>FacultyID = 1, Name = ''P'', Role = ''Teacher'', RatePerHour = 100,
                    TotalHours = 0, Pay = 0\<rparr>,
                  \<lparr>FacultyID = 2, Name = ''Q'', Role = ''Staff'', RatePerHour = 80,
                    TotalHours = 0, Pay = 0\<rparr>],
          GrandTotal = 0\<rparr> \<and>
   handlePayrollCSV no_faults ex_day (72 * hour) (Some (48 * hour)) (Some (24 * hour)) = Inr []"
  by code_simp

end
